theory Spec2Isabelle
  imports Complex_Main "HOL-Library.Word"
begin

unbundle bit_operations_syntax

section \<open>Export file names (internal/export, internal/cli)\<close>

text \<open>
  \<^verbatim>\<open>FormatToFilename\<close> is a \<^verbatim>\<open>switch\<close> over the format name with an empty-string
  default. The cases are kept in the order of the source.
\<close>

definition FormatToFilename :: "string \<Rightarrow> string" where
  "FormatToFilename format =
     (if format = ''claude'' then ''CLAUDE.md''
      else if format = ''cursor'' then ''.cursorrules''
      else if format = ''markdown'' then ''PROJECT_CONTEXT.md''
      else if format = ''json'' then ''memvra-context.json''
      else '''')"

text \<open>
  \<^verbatim>\<open>config.AutoExportConfig\<close> is declared outside the files at hand; the two fields the
  callers read are \<^verbatim>\<open>Enabled\<close> and \<^verbatim>\<open>Formats\<close>.
\<close>

record AutoExportConfig =
  Enabled :: bool
  Formats :: "string list"

text \<open>
  The loop of \<^verbatim>\<open>autoExportFilenames\<close>: \<^verbatim>\<open>names\<close> is the slice built so far, a name is
  appended when it is not the empty string.
\<close>

fun autoExportFilenames_loop :: "string list \<Rightarrow> string list \<Rightarrow> string list" where
  "autoExportFilenames_loop names [] = names"
| "autoExportFilenames_loop names (f # fs) =
     (let name = FormatToFilename f
      in if name \<noteq> '''' then autoExportFilenames_loop (names @ [name]) fs
         else autoExportFilenames_loop names fs)"

definition autoExportFilenames :: "AutoExportConfig \<Rightarrow> string list" where
  "autoExportFilenames cfg = autoExportFilenames_loop [] (Formats cfg)"

section \<open>Installing the MCP server entry (internal/mcp/install.go)\<close>

text \<open>
  \<^verbatim>\<open>mcpServerEntry\<close> declares two fields. \<^verbatim>\<open>Args\<close> is a Go slice, which may be \<^verbatim>\<open>nil\<close>
  (\<open>None\<close> here): \<^verbatim>\<open>encoding/json\<close> writes a \<^verbatim>\<open>nil\<close> slice as \<^verbatim>\<open>null\<close> and an empty
  one as \<^verbatim>\<open>[]\<close>.
\<close>

record mcpServerEntry =
  Command :: string
  Args :: "string list option"

text \<open>
  \<^verbatim>\<open>mcpConfig\<close> has the single field \<^verbatim>\<open>MCPServers\<close>, a Go map that may be \<^verbatim>\<open>nil\<close>
  (\<open>None\<close> here).
\<close>

record mcpConfig =
  MCPServers :: "(string \<rightharpoonup> mcpServerEntry) option"

subsection \<open>What a configuration file holds\<close>

text \<open>
  The function reads and writes JSON text with \<^verbatim>\<open>encoding/json\<close>. A JSON value, with
  numbers restricted to integers (nothing below depends on a number):
\<close>

datatype json =
  JNull
| JBool bool
| JNumber int
| JString string
| JArray "json list"
| JObject "(string \<times> json) list"

text \<open>
  A member of a JSON object as the decoder meets it when it fills a field of a given Go
  type: the object has no such member, the member is \<^verbatim>\<open>null\<close>, it is a value of the
  JSON type the field takes, or it is a value of another JSON type (kept as it stands).
  An \<^verbatim>\<open>args\<close> array with an element that is not a string is counted among the last and
  decoded as \<^verbatim>\<open>nil\<close>; the decoder itself keeps such an array with empty strings in
  place of those elements.
\<close>

datatype 'a member = Absent | Null | Value 'a | Mistyped json

text \<open>
  An object-valued entry of \<^verbatim>\<open>mcpServers\<close> as the file holds it: the two members the
  struct declares, and every other member of the object by name (such as \<^verbatim>\<open>env\<close>,
  \<^verbatim>\<open>url\<close> or \<^verbatim>\<open>type\<close> in the files Claude Code and Cursor keep).
\<close>

record file_entry =
  command_member :: "string member"
  args_member :: "string list member"
  other_members :: "(string \<times> json) list"

text \<open>A value under a server name: an object, \<^verbatim>\<open>null\<close>, or a value of another type.\<close>

datatype entry_value = EntryObject file_entry | EntryNull | EntryMistyped json

text \<open>
  A file whose bytes are a JSON object: its member \<^verbatim>\<open>mcpServers\<close> and its other
  top-level members by name.
\<close>

record document =
  servers :: "(string \<rightharpoonup> entry_value) member"
  other_top_members :: "(string \<times> json) list"

text \<open>The bytes of a file are a JSON object or they are not.\<close>

datatype file_content = Unparsable | Document document

text \<open>
  \<^verbatim>\<open>os.WriteFile\<close> opens the file with \<^verbatim>\<open>O_WRONLY|O_CREATE|O_TRUNC\<close> and then writes: it
  succeeds, or fails to open the file (which is then untouched), or fails after the
  file was truncated (which leaves it empty or with part of the text).
\<close>

datatype write_outcome = Written | NotOpened | Truncated

text \<open>
  The part of the operating system the function touches: the files by path (a path
  that \<^verbatim>\<open>os.ReadFile\<close> cannot read is \<open>None\<close>), whether \<^verbatim>\<open>os.MkdirAll\<close> succeeds and how
  \<^verbatim>\<open>os.WriteFile\<close> ends.
\<close>

record os_state =
  files :: "string \<rightharpoonup> file_content"
  mkdir_ok :: bool
  write_result :: write_outcome

datatype install_error = CreateDirectory | WriteConfig

subsection \<open>Decoding and encoding\<close>

text \<open>
  One entry decoded into the struct: a member that is absent, \<^verbatim>\<open>null\<close> or of another
  type leaves the field at its zero value (the type error is dropped with the error of
  \<^verbatim>\<open>json.Unmarshal\<close>); members the struct does not declare are skipped; a value that is
  not an object gives the zero struct.
\<close>

fun decodeEntry :: "entry_value \<Rightarrow> mcpServerEntry" where
  "decodeEntry (EntryObject e) =
     \<lparr>Command = (case command_member e of Value c \<Rightarrow> c | _ \<Rightarrow> []),
      Args = (case args_member e of Value xs \<Rightarrow> Some xs | _ \<Rightarrow> None)\<rparr>"
| "decodeEntry EntryNull = \<lparr>Command = [], Args = None\<rparr>"
| "decodeEntry (EntryMistyped j) = \<lparr>Command = [], Args = None\<rparr>"

text \<open>
  \<^verbatim>\<open>json.Unmarshal(data, &cfg)\<close> with its error dropped (line 49): text that is not a
  JSON object leaves \<^verbatim>\<open>cfg\<close> as it was; an object \<^verbatim>\<open>mcpServers\<close> is decoded entry by
  entry into the map the target holds (a \<^verbatim>\<open>nil\<close> map is allocated first); \<^verbatim>\<open>null\<close> sets
  the map to \<^verbatim>\<open>nil\<close>; other top-level members are skipped.
\<close>

fun unmarshal :: "file_content \<Rightarrow> mcpConfig \<Rightarrow> mcpConfig" where
  "unmarshal Unparsable cfg = cfg"
| "unmarshal (Document d) cfg =
     (case servers d of
        Absent \<Rightarrow> cfg
      | Null \<Rightarrow> cfg\<lparr>MCPServers := None\<rparr>
      | Mistyped j \<Rightarrow> cfg
      | Value m \<Rightarrow>
          cfg\<lparr>MCPServers :=
            Some ((case MCPServers cfg of None \<Rightarrow> Map.empty | Some m0 \<Rightarrow> m0)
                  ++ (map_option decodeEntry \<circ> m))\<rparr>)"

text \<open>One struct as \<^verbatim>\<open>json.MarshalIndent\<close> writes it: the two declared members only.\<close>

definition encodeEntry :: "mcpServerEntry \<Rightarrow> entry_value" where
  "encodeEntry e =
     EntryObject \<lparr>command_member = Value (Command e),
                  args_member = (case Args e of None \<Rightarrow> Null | Some xs \<Rightarrow> Value xs),
                  other_members = []\<rparr>"

text \<open>
  \<^verbatim>\<open>json.MarshalIndent(cfg, "", "  ")\<close> (line 66), as the document its output is. It
  cannot fail on a map of strings and string slices, so the error branch of line 67
  has no counterpart.
\<close>

definition marshal :: "mcpConfig \<Rightarrow> file_content" where
  "marshal cfg =
     Document \<lparr>servers = (case MCPServers cfg of
                             None \<Rightarrow> Null
                           | Some m \<Rightarrow> Value (map_option encodeEntry \<circ> m)),
               other_top_members = []\<rparr>"

subsection \<open>The function\<close>

text \<open>
  Lines 42 to 53: \<^verbatim>\<open>cfg\<close> starts with an empty map; when the file can be read it is
  decoded into \<^verbatim>\<open>cfg\<close>, and a map left \<^verbatim>\<open>nil\<close> is replaced by an empty one.
\<close>

definition readExisting :: "string \<Rightarrow> os_state \<Rightarrow> mcpConfig" where
  "readExisting path s =
     (let cfg = \<lparr>MCPServers = Some Map.empty\<rparr>
      in case files s path of
           None \<Rightarrow> cfg
         | Some data \<Rightarrow>
             (let cfg' = unmarshal data cfg
              in if MCPServers cfg' = None then cfg'\<lparr>MCPServers := Some Map.empty\<rparr>
                 else cfg'))"

definition memvraEntry :: mcpServerEntry where
  "memvraEntry = \<lparr>Command = ''memvra'', Args = Some [''mcp'']\<rparr>"

text \<open>
  Lines 55 to 59: the assignment \<^verbatim>\<open>cfg.MCPServers["memvra"] = ...\<close> on the map, which is
  not \<^verbatim>\<open>nil\<close> at this point.
\<close>

definition setMemvra :: "mcpConfig \<Rightarrow> mcpConfig" where
  "setMemvra cfg =
     cfg\<lparr>MCPServers :=
       Some ((case MCPServers cfg of None \<Rightarrow> Map.empty | Some m \<Rightarrow> m)
             (''memvra'' \<mapsto> memvraEntry))\<rparr>"

text \<open>
  The whole function: the returned error (\<open>None\<close> for \<^verbatim>\<open>nil\<close>) and the state it
  leaves. A write that fails after the truncation leaves text that is not a JSON
  object.
\<close>

definition installMCPConfig :: "string \<Rightarrow> os_state \<Rightarrow> install_error option \<times> os_state" where
  "installMCPConfig path s =
     (let cfg = setMemvra (readExisting path s)
      in if \<not> mkdir_ok s then (Some CreateDirectory, s)
         else case write_result s of
                NotOpened \<Rightarrow> (Some WriteConfig, s)
              | Truncated \<Rightarrow> (Some WriteConfig, s\<lparr>files := (files s)(path \<mapsto> Unparsable)\<rparr>)
              | Written \<Rightarrow> (None, s\<lparr>files := (files s)(path \<mapsto> marshal cfg)\<rparr>))"

text \<open>
  What the file at \<open>path\<close> holds under a server name: \<open>None\<close> when the file cannot be
  read, is not a JSON object, or has no object \<^verbatim>\<open>mcpServers\<close> with that name in it.
\<close>

definition fileEntry :: "string \<Rightarrow> string \<Rightarrow> os_state \<Rightarrow> entry_value option" where
  "fileEntry path name s =
     (case files s path of
        Some (Document d) \<Rightarrow> (case servers d of Value m \<Rightarrow> m name | _ \<Rightarrow> None)
      | _ \<Rightarrow> None)"

section \<open>The vector codec (internal/memory), modelled from the specification\<close>

text \<open>
  The file that defines the vector store is not among the sources; its tests are. The
  tests name the two codec functions and read the blob with
  \<^verbatim>\<open>binary.LittleEndian.Uint32\<close> and \<^verbatim>\<open>math.Float32frombits\<close>. A \<^verbatim>\<open>float32\<close> is
  represented by its IEEE 754 bit pattern, the value \<^verbatim>\<open>math.Float32bits\<close> gives: the
  codec moves bit patterns and does no arithmetic on them.
\<close>

type_synonym float32 = "32 word"

type_synonym byte = "8 word"

text \<open>
  Modelled from the spec: the little-endian write of one component (the body of
  \<^verbatim>\<open>float32SliceToBlob\<close> is missing). "A vector of N 32-bit floats encodes to exactly
  4 N bytes, little-endian component order."
\<close>

definition PutUint32 :: "32 word \<Rightarrow> byte list" where
  "PutUint32 v = [ucast v, ucast (drop_bit 8 v), ucast (drop_bit 16 v), ucast (drop_bit 24 v)]"

text \<open>
  Modelled from the spec: the little-endian read of one component (the body of
  \<^verbatim>\<open>BlobToFloat32Slice\<close> is missing), as the test reads it.
\<close>

definition Uint32 :: "byte \<Rightarrow> byte \<Rightarrow> byte \<Rightarrow> byte \<Rightarrow> 32 word" where
  "Uint32 b0 b1 b2 b3 =
     ucast b0 OR push_bit 8 (ucast b1) OR push_bit 16 (ucast b2) OR push_bit 24 (ucast b3)"

text \<open>
  Modelled from the spec: \<^verbatim>\<open>float32SliceToBlob\<close>, missing from the sources. The components
  are written one after the other; the empty (or \<^verbatim>\<open>nil\<close>) slice gives the empty blob.
\<close>

fun float32SliceToBlob :: "float32 list \<Rightarrow> byte list" where
  "float32SliceToBlob [] = []"
| "float32SliceToBlob (f # fs) = PutUint32 f @ float32SliceToBlob fs"

text \<open>
  Modelled from the spec: \<^verbatim>\<open>BlobToFloat32Slice\<close>, missing from the sources. "Decoding is
  the exact inverse." The spec keeps every blob at a multiple of four bytes; on any other
  blob this model reads the whole components and stops.
\<close>

fun BlobToFloat32Slice :: "byte list \<Rightarrow> float32 list" where
  "BlobToFloat32Slice (b0 # b1 # b2 # b3 # rest) = Uint32 b0 b1 b2 b3 # BlobToFloat32Slice rest"
| "BlobToFloat32Slice _ = []"

section \<open>Export file names: results\<close>

lemma autoExportFilenames_loop_filter:
  "autoExportFilenames_loop names fs =
     names @ filter (\<lambda>n. n \<noteq> '''') (map FormatToFilename fs)"
  by (induction fs arbitrary: names) (simp_all add: Let_def)

lemma FormatToFilename_range:
  "FormatToFilename f \<in>
     {''CLAUDE.md'', ''.cursorrules'', ''PROJECT_CONTEXT.md'', ''memvra-context.json'', ''''}"
  by (simp add: FormatToFilename_def)

text \<open>
  C9. \<^verbatim>\<open>FormatToFilename\<close> maps the four known format names to their files and every
  other string to the empty string; \<^verbatim>\<open>autoExportFilenames\<close> therefore returns the
  non-empty names of the configured formats, in the order of the formats, and each of
  them is one of the four files.
\<close>

theorem FormatToFilename_autoExportFilenames:
  "FormatToFilename ''claude'' = ''CLAUDE.md''
   \<and> FormatToFilename ''cursor'' = ''.cursorrules''
   \<and> FormatToFilename ''markdown'' = ''PROJECT_CONTEXT.md''
   \<and> FormatToFilename ''json'' = ''memvra-context.json''
   \<and> (s \<notin> {''claude'', ''cursor'', ''markdown'', ''json''} \<longrightarrow> FormatToFilename s = '''')
   \<and> autoExportFilenames cfg
       = filter (\<lambda>n. n \<noteq> '''') (map FormatToFilename (Formats cfg))
   \<and> set (autoExportFilenames cfg)
       \<subseteq> {''CLAUDE.md'', ''.cursorrules'', ''PROJECT_CONTEXT.md'', ''memvra-context.json''}"
proof -
  have table: "FormatToFilename ''claude'' = ''CLAUDE.md''"
    "FormatToFilename ''cursor'' = ''.cursorrules''"
    "FormatToFilename ''markdown'' = ''PROJECT_CONTEXT.md''"
    "FormatToFilename ''json'' = ''memvra-context.json''"
    by (simp_all add: FormatToFilename_def)
  have other: "s \<notin> {''claude'', ''cursor'', ''markdown'', ''json''} \<longrightarrow> FormatToFilename s = ''''"
    by (simp add: FormatToFilename_def)
  have eq: "autoExportFilenames cfg
              = filter (\<lambda>n. n \<noteq> '''') (map FormatToFilename (Formats cfg))"
    by (simp add: autoExportFilenames_def autoExportFilenames_loop_filter)
  have sub: "set (autoExportFilenames cfg)
       \<subseteq> {''CLAUDE.md'', ''.cursorrules'', ''PROJECT_CONTEXT.md'', ''memvra-context.json''}"
  proof
    fix n assume "n \<in> set (autoExportFilenames cfg)"
    then obtain f where "n = FormatToFilename f" and "n \<noteq> ''''"
      unfolding eq by auto
    with FormatToFilename_range [of f] show
      "n \<in> {''CLAUDE.md'', ''.cursorrules'', ''PROJECT_CONTEXT.md'', ''memvra-context.json''}"
      by auto
  qed
  from table other eq sub show ?thesis by blast
qed

theorem FormatToFilename_autoExportFilenames_witness:
  "''unknown'' \<notin> {''claude'', ''cursor'', ''markdown'', ''json''}
   \<and> FormatToFilename ''unknown'' = ''''
   \<and> autoExportFilenames \<lparr>Enabled = True, Formats = [''json'', ''bogus'', ''claude'']\<rparr>
       = [''memvra-context.json'', ''CLAUDE.md'']"
  using FormatToFilename_autoExportFilenames
    [of "''unknown''" "\<lparr>Enabled = True, Formats = [''json'', ''bogus'', ''claude'']\<rparr>"]
  by (simp add: FormatToFilename_def)

section \<open>Installing the MCP server entry: results\<close>

text \<open>
  Writing a struct and reading it back gives the struct; reading an entry of the file
  and writing it back gives its two declared members and nothing else.
\<close>

lemma decodeEntry_encodeEntry: "decodeEntry (encodeEntry e) = e"
  by (cases e) (simp add: encodeEntry_def split: option.splits)

lemma readExisting_lookup:
  "\<exists>m. MCPServers (readExisting path s) = Some m
       \<and> (\<forall>name. m name = map_option decodeEntry (fileEntry path name s))"
proof (cases "files s path")
  case None
  then show ?thesis by (simp add: readExisting_def fileEntry_def)
next
  case (Some data)
  show ?thesis
  proof (cases data)
    case Unparsable
    with Some show ?thesis by (simp add: readExisting_def fileEntry_def)
  next
    case (Document d)
    with Some show ?thesis
      by (cases "servers d") (simp_all add: readExisting_def fileEntry_def Let_def)
  qed
qed

lemma installMCPConfig_written:
  assumes "mkdir_ok s" and "write_result s = Written"
  shows "installMCPConfig path s
           = (None, s\<lparr>files := (files s)(path \<mapsto> marshal (setMemvra (readExisting path s)))\<rparr>)"
  using assms by (simp add: installMCPConfig_def Let_def)

lemma fileEntry_marshal:
  "fileEntry path name (s\<lparr>files := (files s)(path \<mapsto> marshal cfg)\<rparr>)
     = (case MCPServers cfg of None \<Rightarrow> None | Some m \<Rightarrow> map_option encodeEntry (m name))"
  by (simp add: fileEntry_def marshal_def split: option.splits)

lemma installMCPConfig_rewrites:
  assumes "mkdir_ok s" and "write_result s = Written"
  shows "fileEntry path name (snd (installMCPConfig path s))
           = (if name = ''memvra'' then Some (encodeEntry memvraEntry)
              else map_option (encodeEntry \<circ> decodeEntry) (fileEntry path name s))"
proof -
  obtain m where m: "MCPServers (readExisting path s) = Some m"
    and look: "\<And>n. m n = map_option decodeEntry (fileEntry path n s)"
    using readExisting_lookup [of path s] by blast
  show ?thesis
    by (simp add: installMCPConfig_written [OF assms] fileEntry_marshal setMemvra_def m look
        option.map_comp)
qed

lemma unmarshal_marshal:
  assumes "MCPServers cfg = Some m"
  shows "unmarshal (marshal cfg) \<lparr>MCPServers = Some Map.empty\<rparr> = cfg"
proof -
  have "map_option decodeEntry \<circ> (map_option encodeEntry \<circ> m) = m"
    by (rule ext) (simp add: option.map_comp comp_def decodeEntry_encodeEntry option.map_ident)
  with assms show ?thesis
    by (simp add: marshal_def)
qed

lemma readExisting_marshal:
  assumes "MCPServers cfg = Some m"
  shows "readExisting path (s\<lparr>files := (files s)(path \<mapsto> marshal cfg)\<rparr>) = cfg"
  using assms by (simp add: readExisting_def Let_def unmarshal_marshal)

lemma setMemvra_twice: "setMemvra (setMemvra cfg) = setMemvra cfg"
  by (simp add: setMemvra_def)

lemma installMCPConfig_second_run:
  assumes "mkdir_ok s" and "write_result s = Written"
  shows "installMCPConfig path (snd (installMCPConfig path s)) = installMCPConfig path s"
proof -
  let ?cfg = "setMemvra (readExisting path s)"
  let ?s' = "s\<lparr>files := (files s)(path \<mapsto> marshal ?cfg)\<rparr>"
  have first: "installMCPConfig path s = (None, ?s')"
    by (rule installMCPConfig_written [OF assms])
  have "\<exists>m. MCPServers ?cfg = Some m"
    by (simp add: setMemvra_def)
  then have rd: "readExisting path ?s' = ?cfg"
    by (auto intro: readExisting_marshal)
  have ok: "mkdir_ok ?s'" "write_result ?s' = Written"
    using assms by simp_all
  have "installMCPConfig path ?s' = (None, ?s')"
    by (simp add: installMCPConfig_written [OF ok] rd setMemvra_twice)
  with first show ?thesis by simp
qed

text \<open>
  C10. The claim: whatever the file held before, \<^verbatim>\<open>installMCPConfig\<close> leaves every
  server entry other than \<^verbatim>\<open>memvra\<close> unchanged, sets the \<^verbatim>\<open>memvra\<close> entry to command
  \<^verbatim>\<open>memvra\<close> with arguments \<^verbatim>\<open>["mcp"]\<close>, and a second run yields the same
  configuration. A run that creates the directory and writes the file does set the
  entry, and a second run changes nothing (\<open>installMCPConfig_rewrites\<close>,
  \<open>installMCPConfig_second_run\<close>). It does not leave the other entries unchanged: each
  is written back as the two members \<^verbatim>\<open>mcpServerEntry\<close> declares. Below, the file holds
  a server \<^verbatim>\<open>github\<close> with an \<^verbatim>\<open>env\<close> member and a server \<^verbatim>\<open>remote\<close> with \<^verbatim>\<open>type\<close> and
  \<^verbatim>\<open>url\<close> only; the run returns no error, \<^verbatim>\<open>github\<close> has lost \<^verbatim>\<open>env\<close>, and \<^verbatim>\<open>remote\<close>
  has become an empty command with \<^verbatim>\<open>null\<close> arguments.
\<close>

theorem installMCPConfig_drops_undeclared_members:
  "(let github = EntryObject
          \<lparr>command_member = Value ''npx'',
           args_member = Value [''-y'', ''server-github''],
           other_members = [(''env'', JObject [(''GITHUB_TOKEN'', JString ''secret'')])]\<rparr>;
        remote = EntryObject
          \<lparr>command_member = Absent,
           args_member = Absent,
           other_members = [(''type'', JString ''http''), (''url'', JString ''https://example.com/mcp'')]\<rparr>;
        s = \<lparr>files = [''mcp.json'' \<mapsto>
                 Document \<lparr>servers = Value [''github'' \<mapsto> github, ''remote'' \<mapsto> remote],
                           other_top_members = []\<rparr>],
             mkdir_ok = True, write_result = Written\<rparr>;
        r = installMCPConfig ''mcp.json'' s
    in fileEntry ''mcp.json'' ''github'' s = Some github
       \<and> fileEntry ''mcp.json'' ''remote'' s = Some remote
       \<and> fst r = None
       \<and> fileEntry ''mcp.json'' ''memvra'' (snd r)
           = Some (EntryObject \<lparr>command_member = Value ''memvra'', args_member = Value [''mcp''],
                                 other_members = []\<rparr>)
       \<and> fileEntry ''mcp.json'' ''github'' (snd r)
           = Some (EntryObject \<lparr>command_member = Value ''npx'',
                                 args_member = Value [''-y'', ''server-github''],
                                 other_members = []\<rparr>)
       \<and> fileEntry ''mcp.json'' ''remote'' (snd r)
           = Some (EntryObject \<lparr>command_member = Value [], args_member = Null,
                                 other_members = []\<rparr>)
       \<and> fileEntry ''mcp.json'' ''github'' (snd r) \<noteq> fileEntry ''mcp.json'' ''github'' s
       \<and> fileEntry ''mcp.json'' ''remote'' (snd r) \<noteq> fileEntry ''mcp.json'' ''remote'' s)"
  by (simp add: Let_def installMCPConfig_def readExisting_def setMemvra_def marshal_def
      encodeEntry_def memvraEntry_def fileEntry_def)

section \<open>The vector codec: results\<close>

lemma Uint32_PutUint32:
  "Uint32 (ucast v) (ucast (drop_bit 8 v)) (ucast (drop_bit 16 v)) (ucast (drop_bit 24 v)) = (v :: 32 word)"
proof (rule bit_word_eqI)
  fix n :: nat
  assume "n < LENGTH(32)"
  then consider "n < 8" | "8 \<le> n \<and> n < 16" | "16 \<le> n \<and> n < 24" | "24 \<le> n \<and> n < 32"
    by fastforce
  then show "bit (Uint32 (ucast v) (ucast (drop_bit 8 v)) (ucast (drop_bit 16 v)) (ucast (drop_bit 24 v))) n
               = bit v n"
    by cases (auto simp add: Uint32_def bit_simps)
qed

lemma byte_high_bit: "\<not> bit (b :: byte) (8 + n)"
  by (auto dest: bit_imp_le_length)

lemma PutUint32_Uint32:
  "PutUint32 (Uint32 b0 b1 b2 b3) = [b0, b1, b2, b3]"
  unfolding Uint32_def PutUint32_def
  apply simp
  apply (intro conjI; rule bit_word_eqI)
  apply (auto simp add: bit_simps dest: bit_imp_le_length)
  done

lemma length_float32SliceToBlob: "length (float32SliceToBlob v) = 4 * length v"
  by (induction v) (simp_all add: PutUint32_def)

lemma BlobToFloat32Slice_float32SliceToBlob: "BlobToFloat32Slice (float32SliceToBlob v) = v"
  by (induction v) (simp_all add: PutUint32_def Uint32_PutUint32)

lemma float32SliceToBlob_BlobToFloat32Slice:
  "4 dvd length b \<Longrightarrow> float32SliceToBlob (BlobToFloat32Slice b) = b"
proof (induction b rule: BlobToFloat32Slice.induct)
  case (1 b0 b1 b2 b3 rest)
  have "length (b0 # b1 # b2 # b3 # rest) = 4 + length rest"
    by simp
  with "1.prems" have "4 dvd 4 + length rest"
    by (simp only:)
  then have "4 dvd length rest"
    by (simp only: dvd_add_triv_left_iff)
  with "1.IH" show ?case
    by (simp add: PutUint32_Uint32)
qed (auto dest: dvd_imp_le)

lemma length_PutUint32: "length (PutUint32 f) = 4"
  by (simp add: PutUint32_def)

lemma float32SliceToBlob_component:
  "i < length v \<Longrightarrow> take 4 (drop (4 * i) (float32SliceToBlob v)) = PutUint32 (v ! i)"
proof (induction v arbitrary: i)
  case Nil
  then show ?case by simp
next
  case (Cons f fs)
  show ?case
  proof (cases i)
    case 0
    then show ?thesis by (simp add: length_PutUint32)
  next
    case (Suc j)
    with Cons.prems have "j < length fs" by simp
    from Cons.IH [OF this] Suc show ?thesis by (simp add: length_PutUint32)
  qed
qed

lemma float32SliceToBlob_byte:
  assumes "i < length v" and "k < 4"
  shows "float32SliceToBlob v ! (4 * i + k) = ucast (drop_bit (8 * k) (v ! i))"
proof -
  have len: "4 * i + k < length (float32SliceToBlob v)"
    using assms by (simp add: length_float32SliceToBlob)
  have "float32SliceToBlob v ! (4 * i + k) = take 4 (drop (4 * i) (float32SliceToBlob v)) ! k"
    using assms len by simp
  also have "\<dots> = PutUint32 (v ! i) ! k"
    using assms by (simp add: float32SliceToBlob_component)
  also have "\<dots> = ucast (drop_bit (8 * k) (v ! i))"
  proof -
    from \<open>k < 4\<close> consider "k = 0" | "k = 1" | "k = 2" | "k = 3" by linarith
    then show ?thesis by cases (simp_all add: PutUint32_def)
  qed
  finally show ?thesis .
qed

text \<open>
  C3. A vector of N components encodes to exactly 4 N bytes; byte \<open>k\<close> of component \<open>i\<close>
  is bits \<open>8 k\<close> to \<open>8 k + 7\<close> of its bit pattern (little-endian); decoding the encoded
  bytes gives the vector back, the empty vector included; and encoding is the inverse of
  decoding on every blob of a multiple of four bytes.
\<close>

theorem vector_codec_roundtrip:
  "length (float32SliceToBlob v) = 4 * length v
   \<and> (\<forall>i<length v. \<forall>k<4.
         float32SliceToBlob v ! (4 * i + k) = ucast (drop_bit (8 * k) (v ! i)))
   \<and> BlobToFloat32Slice (float32SliceToBlob v) = v
   \<and> (4 dvd length b \<longrightarrow> float32SliceToBlob (BlobToFloat32Slice b) = b)"
  by (intro conjI allI impI)
     (simp_all add: length_float32SliceToBlob BlobToFloat32Slice_float32SliceToBlob
        float32SliceToBlob_BlobToFloat32Slice float32SliceToBlob_byte)

theorem vector_codec_roundtrip_witness:
  "float32SliceToBlob [0x3F800000, 0x7F7FFFFF] = [0, 0, 0x80, 0x3F, 0xFF, 0xFF, 0x7F, 0x7F]
   \<and> (1::nat) < length [0x3F800000, 0x7F7FFFFF :: float32] \<and> (2::nat) < 4
   \<and> float32SliceToBlob [0x3F800000, 0x7F7FFFFF] ! (4 * 1 + 2) = ucast (drop_bit (8 * 2) (0x7F7FFFFF :: float32))
   \<and> BlobToFloat32Slice (float32SliceToBlob [0x3F800000, 0x7F7FFFFF]) = [0x3F800000, 0x7F7FFFFF]
   \<and> 4 dvd length [0, 0, 0x80, 0x3F :: byte]
   \<and> float32SliceToBlob (BlobToFloat32Slice [0, 0, 0x80, 0x3F]) = [0, 0, 0x80, 0x3F]"
proof -
  note rt = vector_codec_roundtrip [of "[0x3F800000, 0x7F7FFFFF]" "[0, 0, 0x80, 0x3F]"]
  have enc: "float32SliceToBlob [0x3F800000, 0x7F7FFFFF] = [0, 0, 0x80, 0x3F, 0xFF, 0xFF, 0x7F, 0x7F]"
    by (simp add: PutUint32_def)
  have i: "(1::nat) < length [0x3F800000, 0x7F7FFFFF :: float32]" and k: "(2::nat) < 4"
    by simp_all
  have d: "4 dvd length [0, 0, 0x80, 0x3F :: byte]"
    by (simp add: eval_nat_numeral)
  have byte:
    "float32SliceToBlob [0x3F800000, 0x7F7FFFFF] ! (4 * 1 + 2)
       = ucast (drop_bit (8 * 2) ([0x3F800000, 0x7F7FFFFF :: float32] ! 1))"
    by (rule rt [THEN conjunct2, THEN conjunct1, rule_format, OF i k])
  have nth1: "[0x3F800000, 0x7F7FFFFF :: float32] ! 1 = 0x7F7FFFFF"
    by simp
  have dec: "BlobToFloat32Slice (float32SliceToBlob [0x3F800000, 0x7F7FFFFF]) = [0x3F800000, 0x7F7FFFFF]"
    by (rule rt [THEN conjunct2, THEN conjunct2, THEN conjunct1])
  have inv: "float32SliceToBlob (BlobToFloat32Slice [0, 0, 0x80, 0x3F]) = [0, 0, 0x80, 0x3F]"
    by (rule rt [THEN conjunct2, THEN conjunct2, THEN conjunct2, rule_format, OF d])
  show ?thesis
    apply (intro conjI)
          apply (rule enc)
         apply (rule i)
        apply (rule k)
       apply (rule byte [unfolded nth1])
      apply (rule dec)
     apply (rule d)
    apply (rule inv)
    done
qed

end
